theory Spec2Isabelle
  imports Complex_Main
begin

section \<open>Black-Scholes-Merton notebook: the terminal-price transform\<close>

text \<open>
  The notebook \<^verbatim>\<open>python-black-scholes-merton\<close> defines one numerical function, twice
  with the same text (cells 2 and 4):
  \<^verbatim>\<open>
  def bsm(s_0, r, sigma, t, z):
      return s_0 * np.exp((r - 0.5*sigma*sigma)*t + sigma * np.sqrt(t)*z)
  \<close>
  Cell 10 (the Monte Carlo estimate) is empty and the body of \<^verbatim>\<open>call\<close> in cell 12 is the
  placeholder \<^verbatim>\<open>??\<close>.
\<close>

subsection \<open>Double-precision numbers\<close>

text \<open>
  A Python float and a numpy \<^verbatim>\<open>float64\<close> are IEEE 754 binary64 numbers: NaN, the two
  infinities, or a finite value. A finite value is carried as the real number it denotes;
  the two zeros, which compare equal, are not told apart.
\<close>

datatype float64 = NaN | PInf | NInf | Finite real

text \<open>
  Rounding to nearest, ties to even. A number of magnitude in \<^verbatim>\<open>[2^e, 2^(e+1))\<close> is
  rounded to a multiple of \<^verbatim>\<open>2^(e-52)\<close> (53 significant bits); below \<^verbatim>\<open>2^-1022\<close> the
  spacing stays \<^verbatim>\<open>2^-1074\<close> (subnormal numbers, underflow to zero); a rounded magnitude
  of \<^verbatim>\<open>2^1024\<close> or more overflows to an infinity.
\<close>

definition binade :: "real \<Rightarrow> int" where
  "binade x = max \<lfloor>log 2 \<bar>x\<bar>\<rfloor> (- 1022)"

definition ulp :: "real \<Rightarrow> real" where
  "ulp x = 2 powi (binade x - 52)"

definition rne :: "real \<Rightarrow> int" where
  "rne y =
     (let f = \<lfloor>y\<rfloor>; d = y - of_int f
      in if d < 1 / 2 then f else if 1 / 2 < d then f + 1 else if even f then f else f + 1)"

definition overflow_threshold :: real where
  "overflow_threshold = 2 ^ 1024"

definition round_to_double :: "real \<Rightarrow> float64" where
  "round_to_double x =
     (if x = 0 then Finite 0
      else
        let y = of_int (rne (x / ulp x)) * ulp x
        in if overflow_threshold \<le> \<bar>y\<bar> then (if 0 < x then PInf else NInf) else Finite y)"

text \<open>A real number is a double when rounding leaves it as it is.\<close>

definition is_double :: "real \<Rightarrow> bool" where
  "is_double x \<longleftrightarrow> round_to_double x = Finite x"

text \<open>
  The arithmetic of the processor, the same for Python's \<^verbatim>\<open>*\<close>, \<^verbatim>\<open>+\<close>, \<^verbatim>\<open>-\<close> on floats
  and for numpy's on \<^verbatim>\<open>float64\<close>: the exact result, rounded. An overflow gives an
  infinity and an invalid operation (infinity times zero, infinity minus infinity, the
  square root of a negative number) gives NaN; neither raises an exception.
\<close>

fun f_neg :: "float64 \<Rightarrow> float64" where
  "f_neg NaN = NaN"
| "f_neg PInf = NInf"
| "f_neg NInf = PInf"
| "f_neg (Finite x) = Finite (- x)"

fun f_mul :: "float64 \<Rightarrow> float64 \<Rightarrow> float64" where
  "f_mul NaN b = NaN"
| "f_mul a NaN = NaN"
| "f_mul (Finite x) (Finite y) = round_to_double (x * y)"
| "f_mul (Finite x) b = (if x = 0 then NaN else if 0 < x then b else f_neg b)"
| "f_mul a (Finite y) = (if y = 0 then NaN else if 0 < y then a else f_neg a)"
| "f_mul a b = (if a = b then PInf else NInf)"

fun f_add :: "float64 \<Rightarrow> float64 \<Rightarrow> float64" where
  "f_add NaN b = NaN"
| "f_add a NaN = NaN"
| "f_add (Finite x) (Finite y) = round_to_double (x + y)"
| "f_add (Finite x) b = b"
| "f_add a (Finite y) = a"
| "f_add a b = (if a = b then a else NaN)"

definition f_sub :: "float64 \<Rightarrow> float64 \<Rightarrow> float64" where
  "f_sub a b = f_add a (f_neg b)"

fun f_sqrt :: "float64 \<Rightarrow> float64" where
  "f_sqrt NaN = NaN"
| "f_sqrt PInf = PInf"
| "f_sqrt NInf = NaN"
| "f_sqrt (Finite x) = (if x < 0 then NaN else round_to_double (sqrt x))"

text \<open>
  The exponential is the mathematical library's. What every implementation returns is
  fixed here: \<open>1\<close> at \<open>0\<close>, infinity from \<open>710\<close> on (\<^verbatim>\<open>e^710\<close> is beyond the largest
  double), zero up to \<open>-746\<close> (\<^verbatim>\<open>e^-746\<close> is below half the smallest double). In between
  the result is the library's choice among the doubles next to the exact value, the
  parameter \<open>libm\<close>.
\<close>

fun f_exp :: "(real \<Rightarrow> float64) \<Rightarrow> float64 \<Rightarrow> float64" where
  "f_exp libm NaN = NaN"
| "f_exp libm PInf = PInf"
| "f_exp libm NInf = Finite 0"
| "f_exp libm (Finite x) =
     (if x = 0 then Finite 1
      else if 710 \<le> x then PInf
      else if x \<le> - 746 then Finite 0
      else libm x)"

text \<open>One such library function: the exact value, rounded.\<close>

definition cr_exp :: "real \<Rightarrow> float64" where
  "cr_exp x = round_to_double (exp x)"

subsection \<open>numpy values and broadcasting\<close>

text \<open>
  The draw \<^verbatim>\<open>z\<close> is either one number (\<^verbatim>\<open>np.random.standard_normal()\<close>) or a
  one-dimensional array (\<^verbatim>\<open>np.random.standard_normal(n)\<close>). A numpy universal function
  applies its scalar operation to a scalar, or to every element of an array; a binary one
  pairs a scalar with every element of an array, and two arrays element by element.
\<close>

datatype ndarray = Scalar float64 | Array "float64 list"

fun np_exp :: "(real \<Rightarrow> float64) \<Rightarrow> ndarray \<Rightarrow> ndarray" where
  "np_exp libm (Scalar x) = Scalar (f_exp libm x)"
| "np_exp libm (Array xs) = Array (map (f_exp libm) xs)"

fun np_sqrt :: "ndarray \<Rightarrow> ndarray" where
  "np_sqrt (Scalar x) = Scalar (f_sqrt x)"
| "np_sqrt (Array xs) = Array (map f_sqrt xs)"

text \<open>
  Exceptions. The source raises nowhere itself; on float arguments the only exception
  its numpy calls can raise is the \<^verbatim>\<open>ValueError\<close> of two arrays whose shapes do not
  broadcast. \<open>InvalidParameter\<close> and \<open>NumericDomainError\<close> are the two error kinds of the
  specification's error taxonomy.
\<close>

datatype error = ValueError | InvalidParameter | NumericDomainError

fun broadcast :: "(float64 \<Rightarrow> float64 \<Rightarrow> float64) \<Rightarrow> ndarray \<Rightarrow> ndarray \<Rightarrow> error + ndarray" where
  "broadcast f (Scalar a) (Scalar b) = Inr (Scalar (f a b))"
| "broadcast f (Scalar a) (Array ys) = Inr (Array (map (f a) ys))"
| "broadcast f (Array xs) (Scalar b) = Inr (Array (map (\<lambda>x. f x b) xs))"
| "broadcast f (Array xs) (Array ys) =
     (if length xs = length ys then Inr (Array (map2 f xs ys))
      else if length xs = 1 then Inr (Array (map (f (hd xs)) ys))
      else if length ys = 1 then Inr (Array (map (\<lambda>x. f x (hd ys)) xs))
      else Inl ValueError)"

definition np_multiply :: "ndarray \<Rightarrow> ndarray \<Rightarrow> error + ndarray" where
  "np_multiply = broadcast f_mul"

definition np_add :: "ndarray \<Rightarrow> ndarray \<Rightarrow> error + ndarray" where
  "np_add = broadcast f_add"

subsection \<open>The source function\<close>

text \<open>
  \<^verbatim>\<open>s_0 * np.exp((r - 0.5*sigma*sigma)*t + sigma * np.sqrt(t)*z)\<close>, for float arguments
  \<^verbatim>\<open>s_0\<close>, \<^verbatim>\<open>r\<close>, \<^verbatim>\<open>sigma\<close>, \<^verbatim>\<open>t\<close> (the int \<^verbatim>\<open>100\<close> of the notebook's calls enters
  every operation as the float \<^verbatim>\<open>100.0\<close>). With Python's precedence
  \<^verbatim>\<open>(r - 0.5*sigma*sigma)*t\<close> is \<^verbatim>\<open>((r - ((0.5*sigma)*sigma))*t)\<close>, arithmetic on Python
  floats, and \<^verbatim>\<open>sigma * np.sqrt(t)\<close> is computed before it meets \<^verbatim>\<open>z\<close>. An exception of
  a numpy call leaves the function at once. An int argument too large for a double, for
  which Python raises \<^verbatim>\<open>OverflowError\<close> at its conversion, is outside this model.
\<close>

definition bsm :: "(real \<Rightarrow> float64) \<Rightarrow> float64 \<Rightarrow> float64 \<Rightarrow> float64 \<Rightarrow> float64 \<Rightarrow> ndarray \<Rightarrow> error + ndarray" where
  "bsm libm s_0 r sigma t z =
     (let drift = f_mul (f_sub r (f_mul (f_mul (Finite 0.5) sigma) sigma)) t
      in case np_multiply (Scalar sigma) (np_sqrt (Scalar t)) of
        Inl e \<Rightarrow> Inl e
      | Inr vol \<Rightarrow>
     (case np_multiply vol z of
        Inl e \<Rightarrow> Inl e
      | Inr diffusion \<Rightarrow>
     (case np_add (Scalar drift) diffusion of
        Inl e \<Rightarrow> Inl e
      | Inr exponent \<Rightarrow> np_multiply (Scalar s_0) (np_exp libm exponent))))"

text \<open>
  The specification's formula for one terminal price,
  \<^verbatim>\<open>S = S0 * exp((r - sigma^2/2)*t + sigma*sqrt(t)*Z)\<close>, as a function of one draw, every
  operation in double precision and in the order in which the source writes them
  (\<^verbatim>\<open>sigma^2/2\<close> as \<^verbatim>\<open>0.5*sigma*sigma\<close>).
\<close>

definition terminal_price :: "(real \<Rightarrow> float64) \<Rightarrow> float64 \<Rightarrow> float64 \<Rightarrow> float64 \<Rightarrow> float64 \<Rightarrow> float64 \<Rightarrow> float64" where
  "terminal_price libm S0 r sigma t Z =
     f_mul S0 (f_exp libm
       (f_add (f_mul (f_sub r (f_mul (f_mul (Finite 0.5) sigma) sigma)) t)
              (f_mul (f_mul sigma (f_sqrt t)) Z)))"

text \<open>A value that is not a negative number and not the negative infinity.\<close>

fun not_negative :: "float64 \<Rightarrow> bool" where
  "not_negative NaN = True"
| "not_negative PInf = True"
| "not_negative NInf = False"
| "not_negative (Finite y) = (0 \<le> y)"

subsection \<open>An invocation in the interpreter\<close>

text \<open>
  A call of \<^verbatim>\<open>bsm\<close> runs in the state of the interpreter. The body reads no global
  name but the module \<^verbatim>\<open>np\<close>, assigns none and draws no random number (the draw
  \<^verbatim>\<open>z\<close> is an argument, drawn by the caller). Its numpy operations have one effect:
  after each of them numpy looks at the floating-point status and, with its default
  settings, issues a \<^verbatim>\<open>RuntimeWarning\<close> for an overflow (finite operands, infinite
  result) and for an invalid operation (no NaN among the operands, NaN as result);
  underflow is ignored. Python prints a warning the first time it is issued from a source
  line and records it in the module's \<^verbatim>\<open>__warningregistry__\<close>. The arithmetic on Python
  floats, \<^verbatim>\<open>(r - 0.5*sigma*sigma)*t\<close>, issues no warning.
\<close>

datatype fp_error = Overflow | Invalid

datatype operation = Sqrt | Exp | Multiply | Add | Scalar_multiply | Scalar_add

type_synonym warning = "fp_error \<times> operation"

text \<open>
  The state: the global names of the notebook together with numpy's random generator
  (\<open>names\<close>), the registry of the warnings issued so far, and what was printed.
\<close>

record 'g interp =
  names :: 'g
  warningregistry :: "warning set"
  stderr :: "warning list"

definition warn :: "warning \<Rightarrow> 'g interp \<Rightarrow> 'g interp" where
  "warn w st =
     (if w \<in> warningregistry st then st
      else st\<lparr>warningregistry := insert w (warningregistry st), stderr := stderr st @ [w]\<rparr>)"

fun is_finite :: "float64 \<Rightarrow> bool" where
  "is_finite (Finite x) = True"
| "is_finite a = False"

definition fp_overflow :: "float64 list \<Rightarrow> float64 \<Rightarrow> bool" where
  "fp_overflow args res \<longleftrightarrow> (res = PInf \<or> res = NInf) \<and> list_all is_finite args"

definition fp_invalid :: "float64 list \<Rightarrow> float64 \<Rightarrow> bool" where
  "fp_invalid args res \<longleftrightarrow> res = NaN \<and> NaN \<notin> set args"

definition check_flags :: "operation \<Rightarrow> (float64 list \<times> float64) list \<Rightarrow> 'g interp \<Rightarrow> 'g interp" where
  "check_flags op runs st =
     (let st1 = (if list_ex (\<lambda>(args, res). fp_overflow args res) runs then warn (Overflow, op) st else st)
      in if list_ex (\<lambda>(args, res). fp_invalid args res) runs then warn (Invalid, op) st1 else st1)"

fun elements :: "ndarray \<Rightarrow> float64 list" where
  "elements (Scalar x) = [x]"
| "elements (Array xs) = xs"

fun operand_pairs :: "ndarray \<Rightarrow> ndarray \<Rightarrow> (float64 \<times> float64) list" where
  "operand_pairs (Scalar a) (Scalar b) = [(a, b)]"
| "operand_pairs (Scalar a) (Array ys) = map (Pair a) ys"
| "operand_pairs (Array xs) (Scalar b) = map (\<lambda>x. (x, b)) xs"
| "operand_pairs (Array xs) (Array ys) =
     (if length xs = length ys then zip xs ys
      else if length xs = 1 then map (Pair (hd xs)) ys
      else if length ys = 1 then map (\<lambda>x. (x, hd ys)) xs
      else [])"

definition unary_call :: "operation \<Rightarrow> (float64 \<Rightarrow> float64) \<Rightarrow> ndarray \<Rightarrow> 'g interp \<Rightarrow> 'g interp" where
  "unary_call op f a st = check_flags op (map (\<lambda>x. ([x], f x)) (elements a)) st"

definition binary_call :: "operation \<Rightarrow> (float64 \<Rightarrow> float64 \<Rightarrow> float64) \<Rightarrow> ndarray \<Rightarrow> ndarray \<Rightarrow> 'g interp \<Rightarrow> 'g interp" where
  "binary_call op f a b st = check_flags op (map (\<lambda>(x, y). ([x, y], f x y)) (operand_pairs a b)) st"

fun scalar_or :: "operation \<Rightarrow> operation \<Rightarrow> ndarray \<Rightarrow> ndarray \<Rightarrow> operation" where
  "scalar_or scalar_op array_op (Scalar a) (Scalar b) = scalar_op"
| "scalar_or scalar_op array_op a b = array_op"

definition multiply_call :: "ndarray \<Rightarrow> ndarray \<Rightarrow> 'g interp \<Rightarrow> (error + ndarray) \<times> 'g interp" where
  "multiply_call a b st =
     (case np_multiply a b of
        Inl e \<Rightarrow> (Inl e, st)
      | Inr v \<Rightarrow> (Inr v, binary_call (scalar_or Scalar_multiply Multiply a b) f_mul a b st))"

definition add_call :: "ndarray \<Rightarrow> ndarray \<Rightarrow> 'g interp \<Rightarrow> (error + ndarray) \<times> 'g interp" where
  "add_call a b st =
     (case np_add a b of
        Inl e \<Rightarrow> (Inl e, st)
      | Inr v \<Rightarrow> (Inr v, binary_call (scalar_or Scalar_add Add a b) f_add a b st))"

definition bsm_call ::
  "(real \<Rightarrow> float64) \<Rightarrow> 'g interp \<Rightarrow> float64 \<Rightarrow> float64 \<Rightarrow> float64 \<Rightarrow> float64 \<Rightarrow> ndarray \<Rightarrow>
     (error + ndarray) \<times> 'g interp" where
  "bsm_call libm st s_0 r sigma t z =
     (let drift = f_mul (f_sub r (f_mul (f_mul (Finite 0.5) sigma) sigma)) t;
          root = np_sqrt (Scalar t);
          st1 = unary_call Sqrt f_sqrt (Scalar t) st
      in case multiply_call (Scalar sigma) root st1 of
        (Inl e, st2) \<Rightarrow> (Inl e, st2)
      | (Inr vol, st2) \<Rightarrow>
     (case multiply_call vol z st2 of
        (Inl e, st3) \<Rightarrow> (Inl e, st3)
      | (Inr diffusion, st3) \<Rightarrow>
     (case add_call (Scalar drift) diffusion st3 of
        (Inl e, st4) \<Rightarrow> (Inl e, st4)
      | (Inr exponent, st4) \<Rightarrow>
          multiply_call (Scalar s_0) (np_exp libm exponent)
            (unary_call Exp (f_exp libm) exponent st4))))"

text \<open>A finite number other than zero.\<close>

fun finite_nonzero :: "float64 \<Rightarrow> bool" where
  "finite_nonzero (Finite y) = (y \<noteq> 0)"
| "finite_nonzero a = False"

subsection \<open>The closed-form evaluator\<close>

text \<open>
  Modelled from the spec: the body of \<^verbatim>\<open>call\<close>, the specification's
  \<^verbatim>\<open>closed_form_call_price\<close>. The source has its header
  \<^verbatim>\<open>def call(s, r, sigma, t, k):\<close>, the placeholder \<^verbatim>\<open>??\<close> where the body should be,
  and one caller. The body below follows sections 4.4 and 7 of the specification: the
  parameters are checked at the boundary (\<open>InvalidParameter\<close> for a spot, volatility,
  maturity or strike that is not positive), then
  \<^verbatim>\<open>d1 = [ln(S0/K) + (r + sigma^2/2)*t] / (sigma*sqrt(t))\<close>, \<^verbatim>\<open>d2 = d1 - sigma*sqrt(t)\<close>,
  \<^verbatim>\<open>C = Phi(d1)*S0 - Phi(d2)*K*e^(-r*t)\<close>. The standard normal distribution function
  \<open>Phi\<close> is the library's (\<^verbatim>\<open>scipy.stats.norm\<close>, imported by the cell) and is a
  parameter.
\<close>

definition call :: "(real \<Rightarrow> real) \<Rightarrow> real \<Rightarrow> real \<Rightarrow> real \<Rightarrow> real \<Rightarrow> real \<Rightarrow> error + real" where
  "call Phi s r sigma t k =
     (if s \<le> 0 \<or> sigma \<le> 0 \<or> t \<le> 0 \<or> k \<le> 0 then Inl InvalidParameter
      else
        let d1 = (ln (s / k) + (r + sigma\<^sup>2 / 2) * t) / (sigma * sqrt t);
            d2 = d1 - sigma * sqrt t
        in Inr (Phi d1 * s - Phi d2 * k * exp (- (r * t))))"

section \<open>Properties of rounding\<close>

lemma rne_of_int [simp]: "rne (of_int n) = n"
  by (simp add: rne_def)

lemma rne_ge_floor: "\<lfloor>y\<rfloor> \<le> rne y"
  by (simp add: rne_def Let_def)

lemma rne_nonneg: "0 \<le> y \<Longrightarrow> 0 \<le> rne y"
  using rne_ge_floor [of y] by (simp add: order_trans [of 0 "\<lfloor>y\<rfloor>"])

lemma ulp_pos: "0 < ulp x"
  by (simp add: ulp_def)

lemma floor_log2_bounds:
  assumes "x \<noteq> 0"
  shows "2 powi \<lfloor>log 2 \<bar>x\<bar>\<rfloor> \<le> \<bar>x\<bar>" and "\<bar>x\<bar> < 2 powi (\<lfloor>log 2 \<bar>x\<bar>\<rfloor> + 1)"
proof -
  have pos: "0 < \<bar>x\<bar>"
    using assms by simp
  have "2 powr real_of_int \<lfloor>log 2 \<bar>x\<bar>\<rfloor> \<le> \<bar>x\<bar> \<and> \<bar>x\<bar> < 2 powr real_of_int (\<lfloor>log 2 \<bar>x\<bar>\<rfloor> + 1)"
    using floor_log_eq_powr_iff [of "\<bar>x\<bar>" 2 "\<lfloor>log 2 \<bar>x\<bar>\<rfloor>"] pos by simp
  then show "2 powi \<lfloor>log 2 \<bar>x\<bar>\<rfloor> \<le> \<bar>x\<bar>" and "\<bar>x\<bar> < 2 powi (\<lfloor>log 2 \<bar>x\<bar>\<rfloor> + 1)"
    by (simp_all only: powr_real_of_int' [of 2, simplified])
qed

lemma powi2_less_imp: "(2::real) powi m < 2 powi n \<Longrightarrow> m < n"
  using power_int_increasing [of n m "2::real"] by (cases "m < n") simp_all

lemma overflow_threshold_pos: "0 < overflow_threshold"
  by (simp add: overflow_threshold_def)

lemma overflow_threshold_powi: "overflow_threshold = 2 powi 1024"
  by (simp add: overflow_threshold_def)

lemma round_to_double_dyadic:
  assumes m: "\<bar>m\<bar> < 2 ^ 53" and k: "- 1074 \<le> k"
  shows "round_to_double (of_int m * 2 powi k) =
     (if overflow_threshold \<le> \<bar>of_int m * 2 powi k\<bar>
      then (if 0 < m then PInf else NInf) else Finite (of_int m * 2 powi k))"
proof (cases "m = 0")
  case True
  then show ?thesis
    using overflow_threshold_pos by (simp add: round_to_double_def)
next
  case False
  define x :: real where "x = of_int m * 2 powi k"
  have nz: "x \<noteq> 0"
    using False by (simp add: x_def)
  define e where "e = \<lfloor>log 2 \<bar>x\<bar>\<rfloor>"
  have "\<bar>x\<bar> = of_int \<bar>m\<bar> * 2 powi k"
    by (simp add: x_def abs_mult)
  also have "\<dots> < 2 ^ 53 * 2 powi k"
  proof -
    have "real_of_int \<bar>m\<bar> < real_of_int (2 ^ 53)"
      using m by (simp only: of_int_less_iff)
    then show ?thesis
      by (simp add: mult_strict_right_mono)
  qed
  also have "\<dots> = 2 powi (53 + k)"
    by (simp add: power_int_add)
  finally have "\<bar>x\<bar> < 2 powi (53 + k)" .
  moreover have "2 powi e \<le> \<bar>x\<bar>"
    unfolding e_def using floor_log2_bounds(1) [OF nz] .
  ultimately have "(2::real) powi e < 2 powi (53 + k)"
    by linarith
  then have "e < 53 + k"
    by (rule powi2_less_imp)
  with k have j: "0 \<le> k - (binade x - 52)"
    by (simp add: binade_def e_def)
  define j where "j = nat (k - (binade x - 52))"
  define u where "u = ulp x"
  have u_pos: "0 < u"
    by (simp add: u_def ulp_pos)
  have "(2::real) powi k = 2 powi (int j + (binade x - 52))"
    using j by (simp add: j_def)
  also have "\<dots> = 2 ^ j * u"
    by (simp add: power_int_add ulp_def u_def)
  finally have pk: "(2::real) powi k = 2 ^ j * u" .
  have xu: "x = of_int (m * 2 ^ j) * u"
    by (simp add: x_def pk)
  have "x / u = of_int (m * 2 ^ j)"
    using u_pos by (simp add: xu)
  then have "of_int (rne (x / u)) * u = of_int (m * 2 ^ j) * u"
    by (simp only: rne_of_int)
  with xu have "of_int (rne (x / u)) * u = x"
    by simp
  then have y: "of_int (rne (x / ulp x)) * ulp x = x"
    unfolding u_def .
  have "\<not> (2::real) powi k < 0"
    by (simp add: not_less)
  then have "0 < x \<longleftrightarrow> 0 < m"
    by (simp add: x_def zero_less_mult_iff)
  with nz y show ?thesis
    unfolding x_def [symmetric] by (simp add: round_to_double_def Let_def)
qed

lemma round_to_double_overflow:
  assumes "overflow_threshold \<le> \<bar>x\<bar>"
  shows "round_to_double x = (if 0 < x then PInf else NInf)"
proof -
  have nz: "x \<noteq> 0"
    using assms overflow_threshold_pos by auto
  define e where "e = \<lfloor>log 2 \<bar>x\<bar>\<rfloor>"
  have lo: "2 powi e \<le> \<bar>x\<bar>" and hi: "\<bar>x\<bar> < 2 powi (e + 1)"
    unfolding e_def using floor_log2_bounds [OF nz] by blast+
  have "(2::real) powi 1024 < 2 powi (e + 1)"
    using assms hi by (simp add: overflow_threshold_powi)
  then have e: "1024 \<le> e"
    using powi2_less_imp [of 1024 "e + 1"] by simp
  then have b: "binade x = e"
    by (simp add: binade_def e_def)
  have u: "ulp x = 2 powi (e - 52)"
    by (simp add: ulp_def b)
  have "(2::real) powi e = 2 ^ 52 * 2 powi (e - 52)"
    using power_int_add [of "2::real" 52 "e - 52"] by simp
  then have "2 ^ 52 \<le> \<bar>x\<bar> / ulp x"
    using lo by (simp add: u pos_le_divide_eq)
  then have "real_of_int (2 ^ 52) \<le> \<bar>x / ulp x\<bar>"
    using ulp_pos [of x] by (simp add: abs_divide u)
  then have "2 ^ 52 \<le> \<lfloor>\<bar>x / ulp x\<bar>\<rfloor>"
    by (simp only: le_floor_iff)
  moreover have "\<lfloor>\<bar>y\<bar>\<rfloor> \<le> \<bar>rne y\<bar>" for y
    by (simp add: rne_def Let_def) linarith
  ultimately have "2 ^ 52 \<le> \<bar>rne (x / ulp x)\<bar>"
    by (rule order_trans)
  then have "real_of_int (2 ^ 52) \<le> real_of_int \<bar>rne (x / ulp x)\<bar>"
    by (simp only: of_int_le_iff)
  then have "2 ^ 52 * ulp x \<le> \<bar>of_int (rne (x / ulp x)) * ulp x\<bar>"
    using ulp_pos [of x] by (simp add: abs_mult)
  moreover have "2 ^ 52 * ulp x = 2 powi e"
    using power_int_add [of "2::real" 52 "e - 52"] by (simp add: u)
  moreover have "overflow_threshold \<le> 2 powi e"
    using e power_int_increasing [of 1024 e "2::real"] by (simp add: overflow_threshold_def)
  ultimately have "overflow_threshold \<le> \<bar>of_int (rne (x / ulp x)) * ulp x\<bar>"
    by linarith
  with nz show ?thesis
    by (simp add: round_to_double_def Let_def)
qed

lemma round_to_double_nonneg:
  assumes "0 \<le> x"
  shows "round_to_double x = PInf \<or> (\<exists>y\<ge>0. round_to_double x = Finite y)"
proof (cases "x = 0")
  case True
  then show ?thesis
    by (simp add: round_to_double_def)
next
  case False
  with assms have "0 < x"
    by simp
  moreover have "0 \<le> of_int (rne (x / ulp x)) * ulp x"
    using assms ulp_pos [of x] rne_nonneg [of "x / ulp x"] by simp
  ultimately show ?thesis
    by (simp add: round_to_double_def Let_def)
qed


lemma is_double_dyadic:
  "\<bar>m\<bar> < 2 ^ 53 \<Longrightarrow> - 1074 \<le> k \<Longrightarrow> \<bar>of_int m * 2 powi k\<bar> < overflow_threshold \<Longrightarrow>
   is_double (of_int m * 2 powi k)"
  by (simp add: is_double_def round_to_double_dyadic)

lemma round_to_double_not_negative: "0 \<le> x \<Longrightarrow> not_negative (round_to_double x)"
  using round_to_double_nonneg [of x] by auto

lemma cr_exp_not_negative: "not_negative (cr_exp x)"
  by (simp add: cr_exp_def round_to_double_not_negative)

lemma f_exp_not_negative: "\<forall>x. not_negative (libm x) \<Longrightarrow> not_negative (f_exp libm X)"
  by (cases X) simp_all

lemma f_mul_not_negative:
  "0 < s \<Longrightarrow> not_negative E \<Longrightarrow> not_negative (f_mul (Finite s) E)"
  by (cases E) (simp_all add: round_to_double_not_negative)

lemma round_to_double_0 [simp]: "round_to_double 0 = Finite 0"
  by (simp add: round_to_double_def)


lemma rd_numerals:
  "round_to_double 1 = Finite 1"
  "round_to_double (1 / 2) = Finite (1 / 2)"
  "round_to_double (- (1 / 2)) = Finite (- (1 / 2))"
  "round_to_double 2048 = Finite 2048"
  "round_to_double (- 2048) = Finite (- 2048)"
  "round_to_double (4095 / 2) = Finite (4095 / 2)"
  "round_to_double (- (4097 / 2)) = Finite (- (4097 / 2))"
  "round_to_double (- 100) = Finite (- 100)"
  "round_to_double 100 = Finite 100"
  using round_to_double_dyadic [of 1 0] round_to_double_dyadic [of 1 "- 1"]
    round_to_double_dyadic [of "- 1" "- 1"] round_to_double_dyadic [of 2048 0]
    round_to_double_dyadic [of "- 2048" 0] round_to_double_dyadic [of 4095 "- 1"]
    round_to_double_dyadic [of "- 4097" "- 1"] round_to_double_dyadic [of "- 100" 0]
    round_to_double_dyadic [of 100 0]
  by (simp_all add: overflow_threshold_def)

lemma rd_pow519: "round_to_double (2 ^ 519) = Finite (2 ^ 519)"
proof -
  have "\<bar>real_of_int 1 * 2 powi 519\<bar> < overflow_threshold"
    using power_int_strict_increasing [of 519 1024 "2::real"]
    by (simp only: overflow_threshold_def power_int_numeral) simp
  with round_to_double_dyadic [of 1 519] show ?thesis
    by simp
qed

lemma rd_overflow_1039: "round_to_double (2 ^ 519 * 2 ^ 520) = PInf"
  using round_to_double_overflow [of "2 ^ 519 * 2 ^ 520"] by (simp add: overflow_threshold_def)



section \<open>Properties of the arithmetic\<close>

lemma f_mul_NaN_right: "f_mul a NaN = NaN"
  by (cases a) simp_all

lemma f_add_NaN_right: "f_add a NaN = NaN"
  by (cases a) simp_all

lemma f_mul_is_finite: "is_finite (f_mul a b) \<Longrightarrow> is_finite a \<and> is_finite b"
  by (cases a; cases b) (simp_all split: if_splits)

lemma f_add_is_finite: "is_finite (f_add a b) \<Longrightarrow> is_finite a \<and> is_finite b"
  by (cases a; cases b) (simp_all split: if_splits)

lemma f_sqrt_is_finite: "is_finite (f_sqrt a) \<Longrightarrow> is_finite a"
  by (cases a) simp_all

lemma f_exp_finite_nonzero: "finite_nonzero (f_exp libm a) \<Longrightarrow> is_finite a"
  by (cases a) simp_all

lemma f_mul_finite_nonzero: "finite_nonzero (f_mul a b) \<Longrightarrow> finite_nonzero b"
  by (cases a; cases b) (auto split: if_splits)

lemma finite_nonzero_is_finite: "finite_nonzero a \<Longrightarrow> is_finite a"
  by (cases a) simp_all

section \<open>Properties of the terminal-price transform\<close>

lemma bsm_Scalar:
  "bsm libm s_0 r sigma t (Scalar Z) = Inr (Scalar (terminal_price libm s_0 r sigma t Z))"
  by (simp add: bsm_def np_multiply_def np_add_def terminal_price_def)

lemma bsm_Array:
  "bsm libm s_0 r sigma t (Array Zs) = Inr (Array (map (terminal_price libm s_0 r sigma t) Zs))"
  by (simp add: bsm_def np_multiply_def np_add_def terminal_price_def comp_def)

lemma terminal_price_not_negative:
  "0 < s_0 \<Longrightarrow> \<forall>x. not_negative (libm x) \<Longrightarrow>
   not_negative (terminal_price libm (Finite s_0) r sigma t Z)"
  by (simp add: terminal_price_def f_mul_not_negative f_exp_not_negative)

lemma drift_Finite_sigma:
  "f_sub r (f_mul (f_mul (Finite 0.5) sigma) sigma) = Finite w \<Longrightarrow> \<exists>g. sigma = Finite g"
  by (cases sigma; cases r) (simp_all add: f_sub_def)

lemma terminal_price_quiet:
  assumes "finite_nonzero (terminal_price libm s_0 r sigma t Z)"
  shows "is_finite (f_sqrt t)" and "is_finite (f_mul sigma (f_sqrt t))"
    and "is_finite (f_mul (f_mul sigma (f_sqrt t)) Z)"
    and "is_finite (f_add (f_mul (f_sub r (f_mul (f_mul (Finite 0.5) sigma) sigma)) t)
           (f_mul (f_mul sigma (f_sqrt t)) Z))"
    and "is_finite (f_exp libm (f_add (f_mul (f_sub r (f_mul (f_mul (Finite 0.5) sigma) sigma)) t)
           (f_mul (f_mul sigma (f_sqrt t)) Z)))"
    and "is_finite (terminal_price libm s_0 r sigma t Z)"
proof -
  let ?X = "f_add (f_mul (f_sub r (f_mul (f_mul (Finite 0.5) sigma) sigma)) t)
           (f_mul (f_mul sigma (f_sqrt t)) Z)"
  show final: "is_finite (terminal_price libm s_0 r sigma t Z)"
    using assms by (rule finite_nonzero_is_finite)
  have E: "finite_nonzero (f_exp libm ?X)"
    using assms unfolding terminal_price_def by (rule f_mul_finite_nonzero)
  then show "is_finite (f_exp libm ?X)"
    by (rule finite_nonzero_is_finite)
  from E show X: "is_finite ?X"
    by (rule f_exp_finite_nonzero)
  then show d: "is_finite (f_mul (f_mul sigma (f_sqrt t)) Z)"
    using f_add_is_finite by blast
  then show v: "is_finite (f_mul sigma (f_sqrt t))"
    using f_mul_is_finite by blast
  then show "is_finite (f_sqrt t)"
    using f_mul_is_finite by blast
qed



text \<open>
  C3, as amended. \<open>bsm\<close> validates no parameter: with a spot, a volatility or a maturity
  that is not positive (float arguments) it raises no \<open>InvalidParameter\<close> and returns the
  double-precision value of the same expression of the arguments as they were given,
  for a scalar draw and element by element for a vector; nothing is replaced by a default.
\<close>

theorem bsm_unvalidated:
  assumes "s_0 \<le> 0 \<or> sigma \<le> 0 \<or> t \<le> 0"
  shows "bsm libm (Finite s_0) (Finite r) (Finite sigma) (Finite t) (Scalar Z) =
      Inr (Scalar (f_mul (Finite s_0) (f_exp libm
        (f_add (f_mul (f_sub (Finite r) (f_mul (f_mul (Finite 0.5) (Finite sigma)) (Finite sigma))) (Finite t))
               (f_mul (f_mul (Finite sigma) (f_sqrt (Finite t))) Z))))) \<and>
    bsm libm (Finite s_0) (Finite r) (Finite sigma) (Finite t) (Array Zs) =
      Inr (Array (map (\<lambda>Z. f_mul (Finite s_0) (f_exp libm
        (f_add (f_mul (f_sub (Finite r) (f_mul (f_mul (Finite 0.5) (Finite sigma)) (Finite sigma))) (Finite t))
               (f_mul (f_mul (Finite sigma) (f_sqrt (Finite t))) Z)))) Zs)) \<and>
    bsm libm (Finite s_0) (Finite r) (Finite sigma) (Finite t) z \<noteq> Inl InvalidParameter"
proof (intro conjI)
  show "bsm libm (Finite s_0) (Finite r) (Finite sigma) (Finite t) z \<noteq> Inl InvalidParameter"
    by (cases z) (simp_all add: bsm_Scalar bsm_Array)
qed (simp_all add: bsm_Scalar bsm_Array terminal_price_def [abs_def])

theorem bsm_unvalidated_witness:
  "((- 100::real) \<le> 0 \<or> (0::real) \<le> 0 \<or> (0::real) \<le> 0) \<and>
   bsm cr_exp (Finite (- 100)) (Finite 0) (Finite 0) (Finite 0) (Scalar (Finite 1)) = Inr (Scalar (Finite (- 100))) \<and>
   bsm cr_exp (Finite (- 100)) (Finite 0) (Finite 0) (Finite 0) (Array [Finite 1, Finite 2]) =
     Inr (Array [Finite (- 100), Finite (- 100)])"
proof -
  have invalid: "(- 100::real) \<le> 0 \<or> (0::real) \<le> 0 \<or> (0::real) \<le> 0"
    by simp
  from bsm_unvalidated [OF invalid, of cr_exp 0 "Finite 1" "[Finite 1, Finite 2]"]
  show ?thesis
    by (simp add: f_sub_def rd_numerals)
qed

text \<open>
  C3, as stated, fails: with spot \<open>-100\<close>, volatility \<open>0\<close> and maturity \<open>0\<close>, all three
  outside their ranges, \<open>bsm\<close> raises no \<open>InvalidParameter\<close> and returns \<open>-100\<close>.
\<close>

theorem bsm_invalid_parameter_counterexample:
  "bsm cr_exp (Finite (- 100)) (Finite 0) (Finite 0) (Finite 0) (Scalar (Finite 0)) \<noteq> Inl InvalidParameter \<and>
   bsm cr_exp (Finite (- 100)) (Finite 0) (Finite 0) (Finite 0) (Scalar (Finite 0)) =
     Inr (Scalar (Finite (- 100)))"
  by (simp add: bsm_Scalar terminal_price_def f_sub_def rd_numerals)

text \<open>
  C4. The result for a vector of draws is a vector of the same length whose \<open>i\<close>-th
  element is the result of the scalar call on the \<open>i\<close>-th draw alone.
\<close>

theorem bsm_batch_elementwise:
  "\<exists>ys. bsm libm s_0 r sigma t (Array zs) = Inr (Array ys) \<and> length ys = length zs \<and>
     (\<forall>i<length zs. bsm libm s_0 r sigma t (Scalar (zs ! i)) = Inr (Scalar (ys ! i)))"
  by (simp add: bsm_Scalar bsm_Array)

theorem bsm_batch_elementwise_witness:
  "\<exists>ys. bsm cr_exp (Finite 100) (Finite 0) (Finite 0.5) (Finite 0.25) (Array [Finite 0, Finite 1]) =
       Inr (Array ys) \<and> length ys = 2 \<and>
     bsm cr_exp (Finite 100) (Finite 0) (Finite 0.5) (Finite 0.25) (Scalar (Finite 1)) = Inr (Scalar (ys ! 1))"
proof -
  obtain ys where
    batch: "bsm cr_exp (Finite 100) (Finite 0) (Finite 0.5) (Finite 0.25) (Array [Finite 0, Finite 1]) =
      Inr (Array ys)" and
    len: "length ys = length [Finite 0, Finite 1]" and
    elems: "\<forall>i<length [Finite 0, Finite 1].
       bsm cr_exp (Finite 100) (Finite 0) (Finite 0.5) (Finite 0.25) (Scalar ([Finite 0, Finite 1] ! i)) =
       Inr (Scalar (ys ! i))"
    using bsm_batch_elementwise [of cr_exp "Finite 100" "Finite 0" "Finite 0.5" "Finite 0.25"
      "[Finite 0, Finite 1]"] by blast
  have "(1::nat) < length [Finite 0, Finite 1]"
    by simp
  with elems have "bsm cr_exp (Finite 100) (Finite 0) (Finite 0.5) (Finite 0.25)
      (Scalar ([Finite 0, Finite 1] ! 1)) = Inr (Scalar (ys ! 1))"
    by blast
  with batch len show ?thesis
    by simp
qed

subsection \<open>Effects of a call\<close>

lemma names_warn [simp]: "names (warn w st) = names st"
  by (simp add: warn_def)

lemma names_check_flags [simp]: "names (check_flags op runs st) = names st"
  by (simp add: check_flags_def Let_def)

lemma fst_multiply_call [simp]: "fst (multiply_call a b st) = np_multiply a b"
  by (simp add: multiply_call_def split: sum.splits)

lemma fst_add_call [simp]: "fst (add_call a b st) = np_add a b"
  by (simp add: add_call_def split: sum.splits)

lemma names_multiply_call [simp]: "names (snd (multiply_call a b st)) = names st"
  by (simp add: multiply_call_def binary_call_def split: sum.splits)

lemma names_add_call [simp]: "names (snd (add_call a b st)) = names st"
  by (simp add: add_call_def binary_call_def split: sum.splits)

lemma fst_bsm_call: "fst (bsm_call libm st s_0 r sigma t z) = bsm libm s_0 r sigma t z"
  by (cases z)
    (simp_all add: bsm_call_def bsm_def Let_def multiply_call_def add_call_def np_multiply_def np_add_def)

lemma names_bsm_call: "names (snd (bsm_call libm st s_0 r sigma t z)) = names st"
  by (cases z)
    (simp_all add: bsm_call_def Let_def multiply_call_def add_call_def np_multiply_def np_add_def
      unary_call_def binary_call_def)

lemma check_flags_quiet:
  assumes "\<forall>(args, res)\<in>set runs. is_finite res"
  shows "check_flags op runs st = st"
proof -
  have "\<not> fp_overflow args res" and "\<not> fp_invalid args res" if "(args, res) \<in> set runs" for args res
    using assms that by (cases res; fastforce simp add: fp_overflow_def fp_invalid_def)+
  then show ?thesis
    by (auto simp add: check_flags_def Let_def list_ex_iff)
qed

lemma bsm_call_quiet_Scalar:
  assumes "finite_nonzero (terminal_price libm s_0 r sigma t Z)"
  shows "snd (bsm_call libm st s_0 r sigma t (Scalar Z)) = st"
  using terminal_price_quiet [OF assms]
  by (simp add: bsm_call_def Let_def multiply_call_def add_call_def np_multiply_def np_add_def
      unary_call_def binary_call_def check_flags_quiet terminal_price_def)

lemma bsm_call_quiet_Array:
  assumes "Zs \<noteq> []" and "\<forall>Z\<in>set Zs. finite_nonzero (terminal_price libm s_0 r sigma t Z)"
  shows "snd (bsm_call libm st s_0 r sigma t (Array Zs)) = st"
proof -
  from assms(1) obtain Z0 where "Z0 \<in> set Zs"
    by (cases Zs) auto
  with assms(2) have "finite_nonzero (terminal_price libm s_0 r sigma t Z0)"
    by blast
  note first = terminal_price_quiet(1,2) [OF this]
  have each: "is_finite (f_mul (f_mul sigma (f_sqrt t)) Z)"
    "is_finite (f_add (f_mul (f_sub r (f_mul (f_mul (Finite 0.5) sigma) sigma)) t)
           (f_mul (f_mul sigma (f_sqrt t)) Z))"
    "is_finite (f_exp libm (f_add (f_mul (f_sub r (f_mul (f_mul (Finite 0.5) sigma) sigma)) t)
           (f_mul (f_mul sigma (f_sqrt t)) Z)))"
    "is_finite (f_mul s_0 (f_exp libm (f_add (f_mul (f_sub r (f_mul (f_mul (Finite 0.5) sigma) sigma)) t)
           (f_mul (f_mul sigma (f_sqrt t)) Z))))"
    if "Z \<in> set Zs" for Z
    using terminal_price_quiet(3-6) [of libm s_0 r sigma t Z] assms(2) that
    by (simp_all add: terminal_price_def)
  show ?thesis
    using first each
    by (simp add: bsm_call_def Let_def multiply_call_def add_call_def np_multiply_def np_add_def
        unary_call_def binary_call_def check_flags_quiet)
qed

text \<open>
  C8, as amended. The result of a call of \<open>bsm\<close> is the same in every interpreter state,
  so two calls with the same arguments return the same result; a call changes no global
  name and leaves the random generator alone. Its one effect is numpy's warning for an
  overflow or an invalid operation: a call that returns a finite number other than zero
  (or a non-empty vector of such numbers) has issued none and leaves the whole state as
  it was.
\<close>

theorem bsm_call_effects:
  "fst (bsm_call libm st s_0 r sigma t z) = fst (bsm_call libm st' s_0 r sigma t z) \<and>
   names (snd (bsm_call libm st s_0 r sigma t z)) = names st \<and>
   (bsm libm s_0 r sigma t (Scalar Z) = Inr (Scalar y) \<longrightarrow> finite_nonzero y \<longrightarrow>
      snd (bsm_call libm st s_0 r sigma t (Scalar Z)) = st) \<and>
   (bsm libm s_0 r sigma t (Array Zs) = Inr (Array ys) \<longrightarrow> ys \<noteq> [] \<longrightarrow> list_all finite_nonzero ys \<longrightarrow>
      snd (bsm_call libm st s_0 r sigma t (Array Zs)) = st)"
proof (intro conjI impI)
  show "fst (bsm_call libm st s_0 r sigma t z) = fst (bsm_call libm st' s_0 r sigma t z)"
    by (simp only: fst_bsm_call)
  show "names (snd (bsm_call libm st s_0 r sigma t z)) = names st"
    by (rule names_bsm_call)
next
  assume "bsm libm s_0 r sigma t (Scalar Z) = Inr (Scalar y)" and "finite_nonzero y"
  then have "finite_nonzero (terminal_price libm s_0 r sigma t Z)"
    by (simp add: bsm_Scalar)
  then show "snd (bsm_call libm st s_0 r sigma t (Scalar Z)) = st"
    by (rule bsm_call_quiet_Scalar)
next
  assume "bsm libm s_0 r sigma t (Array Zs) = Inr (Array ys)" and "ys \<noteq> []"
    and "list_all finite_nonzero ys"
  then have "Zs \<noteq> []" and "\<forall>Z\<in>set Zs. finite_nonzero (terminal_price libm s_0 r sigma t Z)"
    by (auto simp add: bsm_Array list_all_iff)
  then show "snd (bsm_call libm st s_0 r sigma t (Array Zs)) = st"
    by (rule bsm_call_quiet_Array)
qed

theorem bsm_call_effects_witness:
  "bsm cr_exp (Finite 100) (Finite 0) (Finite 1) (Finite 0) (Scalar (Finite 3)) = Inr (Scalar (Finite 100)) \<and>
   bsm_call cr_exp \<lparr>names = (), warningregistry = {}, stderr = []\<rparr>
       (Finite 100) (Finite 0) (Finite 1) (Finite 0) (Scalar (Finite 3)) =
     (Inr (Scalar (Finite 100)), \<lparr>names = (), warningregistry = {}, stderr = []\<rparr>) \<and>
   snd (bsm_call cr_exp \<lparr>names = (), warningregistry = {}, stderr = []\<rparr>
       (Finite 100) (Finite 0) (Finite 1) (Finite 0) (Array [Finite 3, Finite 4])) =
     \<lparr>names = (), warningregistry = {}, stderr = []\<rparr>"
proof -
  have scalar: "bsm cr_exp (Finite 100) (Finite 0) (Finite 1) (Finite 0) (Scalar (Finite 3)) =
      Inr (Scalar (Finite 100))"
    by (simp add: bsm_Scalar terminal_price_def f_sub_def rd_numerals)
  have array: "bsm cr_exp (Finite 100) (Finite 0) (Finite 1) (Finite 0) (Array [Finite 3, Finite 4]) =
      Inr (Array [Finite 100, Finite 100])"
    by (simp add: bsm_Array terminal_price_def f_sub_def rd_numerals)
  from bsm_call_effects [of cr_exp "\<lparr>names = (), warningregistry = {}, stderr = []\<rparr>"
      "Finite 100" "Finite 0" "Finite 1" "Finite 0" "Scalar (Finite 3)"
      "\<lparr>names = (), warningregistry = {}, stderr = []\<rparr>" "Finite 3" "Finite 100"
      "[Finite 3, Finite 4]" "[Finite 100, Finite 100]"] scalar array
  show ?thesis
    by (simp add: prod_eq_iff fst_bsm_call)
qed

text \<open>
  C8, as stated, fails: a call is not free of effects. With maturity \<open>-1\<close> the square
  root is invalid, and the call leaves a warning in the registry and on the error stream
  that were empty before.
\<close>

theorem bsm_call_warning_counterexample:
  "snd (bsm_call cr_exp \<lparr>names = (), warningregistry = {}, stderr = []\<rparr>
          (Finite 1) (Finite 0) (Finite 1) (Finite (- 1)) (Scalar (Finite 0))) =
     \<lparr>names = (), warningregistry = {(Invalid, Sqrt)}, stderr = [(Invalid, Sqrt)]\<rparr>"
  by (simp add: bsm_call_def Let_def multiply_call_def add_call_def np_multiply_def np_add_def
      unary_call_def binary_call_def check_flags_def fp_overflow_def fp_invalid_def warn_def
      f_sub_def rd_numerals f_add_NaN_right f_mul_NaN_right)

text \<open>
  C9, as amended. For a positive spot the result is never a negative number and never
  the negative infinity, for a scalar draw and for every element of a vector: it is a
  double that is positive or zero, the positive infinity, or NaN. (The exponential of
  the library is taken to return no negative value.)
\<close>

theorem bsm_not_negative:
  assumes "0 < s_0" and "\<forall>x. not_negative (libm x)"
  shows "(\<exists>v. bsm libm (Finite s_0) r sigma t (Scalar Z) = Inr (Scalar v) \<and> not_negative v) \<and>
         (\<exists>vs. bsm libm (Finite s_0) r sigma t (Array Zs) = Inr (Array vs) \<and>
               length vs = length Zs \<and> (\<forall>v\<in>set vs. not_negative v))"
  using assms by (simp add: bsm_Scalar bsm_Array terminal_price_not_negative)

theorem bsm_not_negative_witness:
  "(0::real) < 100 \<and>
   (\<exists>v. bsm cr_exp (Finite 100) (Finite 0) (Finite 0.5) (Finite 0.25) (Scalar (Finite 1)) = Inr (Scalar v) \<and>
        not_negative v) \<and>
   (\<exists>vs. bsm cr_exp (Finite 100) (Finite 0) (Finite 0.5) (Finite 0.25) (Array [Finite 0, Finite 1]) =
        Inr (Array vs) \<and> length vs = 2 \<and> not_negative (vs ! 0) \<and> not_negative (vs ! 1))"
proof -
  have spot: "(0::real) < 100"
    by simp
  have lib: "\<forall>x. not_negative (cr_exp x)"
    by (simp add: cr_exp_not_negative)
  from bsm_not_negative [OF spot lib, of "Finite 0" "Finite 0.5" "Finite 0.25" "Finite 1" "[Finite 0, Finite 1]"]
  obtain v vs where
    "bsm cr_exp (Finite 100) (Finite 0) (Finite 0.5) (Finite 0.25) (Scalar (Finite 1)) = Inr (Scalar v)"
    "not_negative v"
    "bsm cr_exp (Finite 100) (Finite 0) (Finite 0.5) (Finite 0.25) (Array [Finite 0, Finite 1]) = Inr (Array vs)"
    "length vs = length [Finite 0, Finite 1]" "\<forall>v\<in>set vs. not_negative v"
    by blast
  moreover from this have "not_negative (vs ! 0) \<and> not_negative (vs ! 1)"
    by simp
  ultimately show ?thesis
    using spot by auto
qed

text \<open>
  C9, as stated, fails: with spot \<open>1\<close>, rate \<open>0\<close>, volatility \<open>1\<close>, maturity \<open>1\<close> and the
  finite draw \<open>-2048\<close> the exponential underflows and the result is \<open>0\<close>, which is not
  positive.
\<close>

theorem bsm_positive_counterexample:
  "bsm cr_exp (Finite 1) (Finite 0) (Finite 1) (Finite 1) (Scalar (Finite (- 2048))) =
     Inr (Scalar (Finite 0))"
  by (simp add: bsm_Scalar terminal_price_def f_sub_def rd_numerals)

lemma drift_overflow_example:
  "f_sub (Finite 0) (f_mul (f_mul (Finite 0.5) (Finite (2 ^ 520))) (Finite (2 ^ 520))) = NInf"
proof -
  have half: "f_mul (Finite 0.5) (Finite (2 ^ 520)) = Finite (2 ^ 519)"
    using rd_pow519 by simp
  have "f_mul (Finite (2 ^ 519)) (Finite (2 ^ 520)) = PInf"
    using rd_overflow_1039 by (simp only: f_mul.simps)
  with half show ?thesis
    by (simp add: f_sub_def)
qed

text \<open>
  C10, as amended. On float arguments \<open>bsm\<close> raises no error, whatever the signs of spot,
  volatility and maturity: it returns a value. For maturity \<open>0\<close> and a finite draw it
  returns the spot itself whenever \<^verbatim>\<open>r - 0.5*sigma*sigma\<close> is a finite double; when that
  difference is infinite (the square of the volatility overflows) it returns NaN.
\<close>

theorem bsm_total_unvalidated:
  "(\<exists>v. bsm libm s_0 r sigma t z = Inr v) \<and>
   (is_double s \<longrightarrow> f_sub r (f_mul (f_mul (Finite 0.5) sigma) sigma) = Finite w \<longrightarrow>
      bsm libm (Finite s) r sigma (Finite 0) (Scalar (Finite y)) = Inr (Scalar (Finite s))) \<and>
   (f_sub r (f_mul (f_mul (Finite 0.5) sigma) sigma) = PInf \<or>
    f_sub r (f_mul (f_mul (Finite 0.5) sigma) sigma) = NInf \<longrightarrow>
      bsm libm s_0 r sigma (Finite 0) (Scalar Z) = Inr (Scalar NaN))"
proof (intro conjI impI)
  show "\<exists>v. bsm libm s_0 r sigma t z = Inr v"
    by (cases z) (simp_all add: bsm_Scalar bsm_Array)
next
  assume s: "is_double s" and drift: "f_sub r (f_mul (f_mul (Finite 0.5) sigma) sigma) = Finite w"
  from drift obtain g where "sigma = Finite g"
    using drift_Finite_sigma by blast
  with s drift show "bsm libm (Finite s) r sigma (Finite 0) (Scalar (Finite y)) = Inr (Scalar (Finite s))"
    by (simp add: bsm_Scalar terminal_price_def is_double_def)
next
  assume "f_sub r (f_mul (f_mul (Finite 0.5) sigma) sigma) = PInf \<or>
    f_sub r (f_mul (f_mul (Finite 0.5) sigma) sigma) = NInf"
  then show "bsm libm s_0 r sigma (Finite 0) (Scalar Z) = Inr (Scalar NaN)"
    by (auto simp add: bsm_Scalar terminal_price_def f_mul_NaN_right)
qed

theorem bsm_total_unvalidated_witness:
  "bsm cr_exp (Finite (- 100)) (Finite 0) (Finite (- 1)) (Finite 0) (Scalar (Finite 3)) =
     Inr (Scalar (Finite (- 100))) \<and>
   (\<exists>v. bsm cr_exp (Finite (- 100)) (Finite 0) (Finite (- 1)) (Finite (- 1)) (Array [Finite 3]) = Inr v) \<and>
   bsm cr_exp (Finite 1) (Finite 0) (Finite (2 ^ 520)) (Finite 0) (Scalar (Finite 1)) = Inr (Scalar NaN)"
proof -
  have s: "is_double (- 100)"
    by (simp add: is_double_def rd_numerals)
  have drift: "f_sub (Finite 0) (f_mul (f_mul (Finite 0.5) (Finite (- 1))) (Finite (- 1))) = Finite (- (1 / 2))"
    by (simp add: f_sub_def rd_numerals)
  from bsm_total_unvalidated [of cr_exp "Finite (- 100)" "Finite 0" "Finite (- 1)" "Finite (- 1)"
      "Array [Finite 3]" "- 100" "- (1 / 2)" 3 NaN] s drift
  have finite_drift: "bsm cr_exp (Finite (- 100)) (Finite 0) (Finite (- 1)) (Finite 0) (Scalar (Finite 3)) =
      Inr (Scalar (Finite (- 100))) \<and>
    (\<exists>v. bsm cr_exp (Finite (- 100)) (Finite 0) (Finite (- 1)) (Finite (- 1)) (Array [Finite 3]) = Inr v)"
    by simp
  from bsm_total_unvalidated [of cr_exp "Finite 1" "Finite 0" "Finite (2 ^ 520)" "Finite 0"
      "Scalar (Finite 1)" 1 0 0 "Finite 1"] drift_overflow_example
  have "bsm cr_exp (Finite 1) (Finite 0) (Finite (2 ^ 520)) (Finite 0) (Scalar (Finite 1)) = Inr (Scalar NaN)"
    by (simp only: simp_thms)
  with finite_drift show ?thesis
    by (simp only: simp_thms)
qed

text \<open>
  C10, as stated, fails: with maturity \<open>0\<close> and volatility \<^verbatim>\<open>2^520\<close> the product
  \<^verbatim>\<open>0.5*sigma*sigma\<close> is infinite, infinity times the maturity \<open>0\<close> is NaN, and \<open>bsm\<close>
  returns NaN, not the spot \<open>100\<close>.
\<close>

theorem bsm_zero_maturity_counterexample:
  "bsm cr_exp (Finite 100) (Finite 0) (Finite (2 ^ 520)) (Finite 0) (Scalar (Finite 3)) =
     Inr (Scalar NaN)"
  using drift_overflow_example
  by (simp add: bsm_Scalar terminal_price_def f_mul_NaN_right)

section \<open>Properties of the closed-form evaluator\<close>

text \<open>
  C2. For a positive spot, strike, volatility and maturity the closed-form evaluator
  returns \<^verbatim>\<open>Phi(d1)*S0 - Phi(d2)*K*e^(-r*t)\<close> with
  \<^verbatim>\<open>d1 = [ln(S0/K) + (r + sigma^2/2)*t] / (sigma*sqrt(t))\<close> and
  \<^verbatim>\<open>d2 = d1 - sigma*sqrt(t)\<close>.
\<close>

theorem call_closed_form:
  assumes "0 < s" and "0 < k" and "0 < sigma" and "0 < t"
  shows "call Phi s r sigma t k =
          (let d1 = (ln (s / k) + (r + sigma\<^sup>2 / 2) * t) / (sigma * sqrt t);
               d2 = d1 - sigma * sqrt t
           in Inr (Phi d1 * s - Phi d2 * k * exp (- r * t)))"
  using assms by (simp add: call_def Let_def not_le)

theorem call_closed_form_witness:
  "\<forall>Phi. call Phi 1 0 1 1 1 = Inr (Phi (1 / 2) - Phi (- 1 / 2))"
proof
  fix Phi :: "real \<Rightarrow> real"
  have "(0::real) < 1"
    by simp
  from call_closed_form [OF this this this this, where r = 0 and Phi = Phi]
  show "call Phi 1 0 1 1 1 = Inr (Phi (1 / 2) - Phi (- 1 / 2))"
    by (simp add: Let_def)
qed

text \<open>
  C7. With volatility \<open>0\<close> or maturity \<open>0\<close> the closed-form evaluator raises
  \<open>InvalidParameter\<close>; it returns no number.
\<close>

theorem call_rejects_zero:
  "sigma = 0 \<or> t = 0 \<Longrightarrow>
   call Phi s r sigma t k = Inl InvalidParameter \<and> (\<forall>c. call Phi s r sigma t k \<noteq> Inr c)"
  by (auto simp add: call_def)

theorem call_rejects_zero_witness:
  "\<forall>Phi. call Phi 100 0.03 0 0.25 105 = Inl InvalidParameter \<and>
         call Phi 100 0.03 0.4 0 105 = Inl InvalidParameter"
  using call_rejects_zero [of 0 "0.25" _ 100 "0.03" 105] call_rejects_zero [of "0.4" 0 _ 100 "0.03" 105]
  by simp

end
